theory Spec2Isabelle
  imports Complex_Main
begin

section \<open>time-to-boot-server: the world the program runs in\<close>

text \<open>
  The program of \<^verbatim>\<open>main.go\<close> talks to a clock, to the network, to child processes
  and to the console. The model threads an explicit \<open>world\<close> through every function
  and reads what the outside answers from an environment \<open>env\<close>: the n-th reading of
  the clock, whether the n-th \<^verbatim>\<open>cmd.Start\<close> fails, and what the n-th connection attempt
  meets. Every action the program performs is appended to the world's trace.
\<close>

type_synonym duration = int
  \<comment> \<open>\<^verbatim>\<open>time.Duration\<close>: a count of nanoseconds\<close>

type_synonym error = "string option"
  \<comment> \<open>a Go \<^verbatim>\<open>error\<close>: \<open>None\<close> is \<^verbatim>\<open>nil\<close>\<close>

datatype handle = Conn nat | Body nat
  \<comment> \<open>the connection, or the response body, that attempt n opened\<close>

datatype colour = Cyan | Green | Yellow

datatype arg = D duration | Ds "duration list" | F real
  \<comment> \<open>an argument of a format string\<close>

datatype event =
    Clock int
  | Start string "string list"
  | StartFailed string "string list"
  | Dial string
  | Get string
  | ReadAll handle
  | Close handle
  | Kill nat
  | Wait nat
  | Sleep duration
  | Print colour string "arg list"

record response =
  StatusCode :: int
  payload :: string

record env =
  clock :: "nat \<Rightarrow> int"
  start_error :: "nat \<Rightarrow> string \<Rightarrow> string list \<Rightarrow> error"
  dial :: "nat \<Rightarrow> string \<Rightarrow> bool"
  http_get :: "nat \<Rightarrow> string \<Rightarrow> response option"

record world =
  trace :: "event list"
  reads :: nat
  spawns :: nat
  attempts :: nat
  running :: "nat set"
  live :: "handle set"
  unread :: "nat \<Rightarrow> string"

datatype abort = Fatal string | Panic string
  \<comment> \<open>\<^verbatim>\<open>log.Fatal\<close> (the message is printed and the process exits), or a run-time panic\<close>

datatype 'a outcome = Return 'a world | Abort abort world

type_synonym houseKeeper = "world \<Rightarrow> world"
  \<comment> \<open>the Go closure \<^verbatim>\<open>func()\<close>; a value of type \<open>houseKeeper option\<close> may be \<^verbatim>\<open>nil\<close>\<close>

type_synonym prober = "string \<Rightarrow> world \<Rightarrow> (bool \<times> houseKeeper option) \<times> world"

definition emit :: "event \<Rightarrow> world \<Rightarrow> world" where
  "emit e w = w\<lparr>trace := trace w @ [e]\<rparr>"

subsection \<open>The library calls of the probers\<close>

definition time_Sub :: "int \<Rightarrow> int \<Rightarrow> duration" where
  \<comment> \<open>\<^verbatim>\<open>Time.Sub\<close> saturates at the ends of the 64-bit range\<close>
  "time_Sub t u = max (- (2 ^ 63)) (min (2 ^ 63 - 1) (t - u))"

definition time_Now :: "env \<Rightarrow> world \<Rightarrow> int \<times> world" where
  "time_Now E w =
     (clock E (reads w), emit (Clock (clock E (reads w))) (w\<lparr>reads := Suc (reads w)\<rparr>))"

definition time_Since :: "env \<Rightarrow> int \<Rightarrow> world \<Rightarrow> duration \<times> world" where
  "time_Since E start w = (case time_Now E w of (now, w') \<Rightarrow> (time_Sub now start, w'))"

definition time_Sleep :: "duration \<Rightarrow> world \<Rightarrow> world" where
  "time_Sleep d w = emit (Sleep d) w"

definition net_Dial :: "env \<Rightarrow> string \<Rightarrow> world \<Rightarrow> nat option \<times> world" where
  \<comment> \<open>\<open>Some conn\<close> with a \<^verbatim>\<open>nil\<close> error, or \<open>None\<close> with an error\<close>
  "net_Dial E target w =
     (let n = attempts w; w1 = emit (Dial target) (w\<lparr>attempts := Suc n\<rparr>)
      in if dial E n target then (Some n, w1\<lparr>live := insert (Conn n) (live w1)\<rparr>)
         else (None, w1))"

definition conn_Close :: "nat \<Rightarrow> world \<Rightarrow> world" where
  "conn_Close conn w = emit (Close (Conn conn)) (w\<lparr>live := live w - {Conn conn}\<rparr>)"

definition http_Get :: "env \<Rightarrow> string \<Rightarrow> world \<Rightarrow> (nat \<times> int) option \<times> world" where
  \<comment> \<open>\<open>Some (resp, resp.StatusCode)\<close> with a \<^verbatim>\<open>nil\<close> error, or \<open>None\<close> with a transport
      error; a response comes with its body open and unread\<close>
  "http_Get E target w =
     (let n = attempts w; w1 = emit (Get target) (w\<lparr>attempts := Suc n\<rparr>)
      in case http_get E n target of
           None \<Rightarrow> (None, w1)
         | Some r \<Rightarrow>
             (Some (n, StatusCode r),
              w1\<lparr>live := insert (Body n) (live w1), unread := (unread w1)(n := payload r)\<rparr>))"

definition ioutil_ReadAll :: "nat \<Rightarrow> world \<Rightarrow> world" where
  \<comment> \<open>reads the body to its end; the source discards both results\<close>
  "ioutil_ReadAll resp w = emit (ReadAll (Body resp)) (w\<lparr>unread := (unread w)(resp := [])\<rparr>)"

definition Body_Close :: "nat \<Rightarrow> world \<Rightarrow> world" where
  "Body_Close resp w = emit (Close (Body resp)) (w\<lparr>live := live w - {Body resp}\<rparr>)"

definition Process_Kill :: "nat \<Rightarrow> world \<Rightarrow> world" where
  "Process_Kill cmd w = emit (Kill cmd) w"

definition Process_Wait :: "nat \<Rightarrow> world \<Rightarrow> world" where
  "Process_Wait cmd w = emit (Wait cmd) (w\<lparr>running := running w - {cmd}\<rparr>)"

section \<open>The functions of main.go\<close>

definition boot :: "env \<Rightarrow> string \<Rightarrow> string list \<Rightarrow> world \<Rightarrow> (string + nat) \<times> world" where
  "boot E command args w =
     (let n = spawns w; w1 = w\<lparr>spawns := Suc n\<rparr>
      in case start_error E n command args of
           Some err \<Rightarrow> (Inl err, emit (StartFailed command args) w1)
         | None \<Rightarrow> (Inr n, emit (Start command args) (w1\<lparr>running := insert n (running w1)\<rparr>)))"

definition tryConnectingWithTCP :: "env \<Rightarrow> prober" where
  "tryConnectingWithTCP E target w =
     (case net_Dial E target w of
        (Some conn, w1) \<Rightarrow> ((True, Some (conn_Close conn)), w1)
      | (None, w1) \<Rightarrow> ((False, None), w1))"

definition tryConnectingWithHTTPGet :: "env \<Rightarrow> prober" where
  "tryConnectingWithHTTPGet E target w =
     (case http_Get E target w of
        (Some (resp, code), w1) \<Rightarrow>
          if code = 200 then ((True, Some (Body_Close resp)), ioutil_ReadAll resp w1)
          else ((False, None), w1)
      | (None, w1) \<Rightarrow> ((False, None), w1))"

definition connectionFunctionFor :: "env \<Rightarrow> string \<Rightarrow> world \<Rightarrow> prober outcome" where
  "connectionFunctionFor E mode w =
     (if mode = ''tcp-connect'' then Return (tryConnectingWithTCP E) w
      else if mode = ''http-get'' then Return (tryConnectingWithHTTPGet E) w
      else Abort (Fatal (''Unknow mode: '' @ mode)) w)"

text \<open>
  The loop of \<^verbatim>\<open>measure\<close> has no exit but the first successful check: it is a partial
  function, and \<open>None\<close> is the run that polls for ever. Calling a \<^verbatim>\<open>nil\<close> house keeper
  is a panic.
\<close>

partial_function (option) poll ::
  "prober \<Rightarrow> string \<Rightarrow> int \<Rightarrow> nat \<Rightarrow> env \<Rightarrow> world \<Rightarrow> duration outcome option" where
  "poll connectionFunction target start cmd E w =
     (let r = connectionFunction target w
      in if fst (fst r) = True then
           (let t = time_Since E start (snd r)
            in case snd (fst r) of
                 None \<Rightarrow> Some (Abort (Panic ''invalid memory address or nil pointer dereference'') (snd t))
               | Some houseKeeper \<Rightarrow>
                   Some (Return (fst t) (Process_Wait cmd (Process_Kill cmd (houseKeeper (snd t))))))
         else poll connectionFunction target start cmd E (snd r))"

definition measure_boot ::
  "env \<Rightarrow> string \<Rightarrow> string \<Rightarrow> string \<Rightarrow> string list \<Rightarrow> world \<Rightarrow> duration outcome option" where
  \<comment> \<open>\<^verbatim>\<open>measure\<close> of main.go\<close>
  "measure_boot E mode target command args w =
     (case connectionFunctionFor E mode w of
        Abort a w' \<Rightarrow> Some (Abort a w')
      | Return connectionFunction w0 \<Rightarrow>
          (case time_Now E w0 of
             (start, w1) \<Rightarrow>
               (case boot E command args w1 of
                  (Inl err, w2) \<Rightarrow> Some (Abort (Fatal err) w2)
                | (Inr cmd, w2) \<Rightarrow> poll connectionFunction target start cmd E w2)))"


definition color_Print :: "colour \<Rightarrow> string \<Rightarrow> arg list \<Rightarrow> world \<Rightarrow> world" where
  \<comment> \<open>\<^verbatim>\<open>color.Cyan\<close>, \<^verbatim>\<open>color.Green\<close>, \<^verbatim>\<open>color.Yellow\<close>: a format string and its arguments\<close>
  "color_Print c format args w = emit (Print c format args) w"

subsection \<open>The statistics package, as a parameter\<close>

text \<open>
  \<^verbatim>\<open>github.com/montanaflynn/stats\<close> is an import of main.go, not a file of it. The model
  takes the six functions \<^verbatim>\<open>benchmark\<close> calls as a parameter; each returns a value and an
  error, as in Go. A \<^verbatim>\<open>float64\<close> is read as the real number it stands for, so rounding
  and the non-numbers of the floating-point format are outside the model.
\<close>

record outliers =
  Mild :: "real list"
  Extreme :: "real list"

record stats =
  stats_Min :: "real list \<Rightarrow> real \<times> error"
  stats_Max :: "real list \<Rightarrow> real \<times> error"
  stats_Median :: "real list \<Rightarrow> real \<times> error"
  stats_StandardDeviation :: "real list \<Rightarrow> real \<times> error"
  stats_QuartileOutliers :: "real list \<Rightarrow> outliers \<times> error"
  stats_Percentile :: "real list \<Rightarrow> real \<Rightarrow> real \<times> error"

definition float64ToDuration :: "real \<Rightarrow> duration" where
  \<comment> \<open>\<^verbatim>\<open>time.Duration(int64(f))\<close>: the conversion drops the fraction, towards zero\<close>
  "float64ToDuration f = (if 0 \<le> f then \<lfloor>f\<rfloor> else \<lceil>f\<rceil>)"

definition float64DataToDurations :: "real list \<Rightarrow> duration list" where
  "float64DataToDurations data = map float64ToDuration data"

definition percentiles :: "real list" where
  "percentiles = [75.0, 80.0, 85.0, 90.0, 95.0, 97.5, 98.0, 99.0, 99.9, 100.0]"

subsection \<open>benchmark and the action of main\<close>

text \<open>
  The first argument of each loop is the number of iterations still to run
  (\<^verbatim>\<open>dryRuns - i\<close>, \<^verbatim>\<open>runs - i\<close>); a loop whose bound is not positive runs no iteration.
  A run that aborts or never returns ends the loop there.
\<close>

fun dryRunLoop ::
  "nat \<Rightarrow> env \<Rightarrow> string \<Rightarrow> duration \<Rightarrow> string \<Rightarrow> string \<Rightarrow> string list \<Rightarrow> world
     \<Rightarrow> unit outcome option" where
  "dryRunLoop 0 E mode pauseBetweenRuns target command args w = Some (Return () w)"
| "dryRunLoop (Suc n) E mode pauseBetweenRuns target command args w =
     (case measure_boot E mode target command args w of
        None \<Rightarrow> None
      | Some (Abort a w') \<Rightarrow> Some (Abort a w')
      | Some (Return duration w1) \<Rightarrow>
          dryRunLoop n E mode pauseBetweenRuns target command args
            (time_Sleep pauseBetweenRuns (color_Print Cyan ''  - %s'' [D duration] w1)))"

fun runLoop ::
  "nat \<Rightarrow> nat \<Rightarrow> real list \<Rightarrow> env \<Rightarrow> string \<Rightarrow> duration \<Rightarrow> string \<Rightarrow> string \<Rightarrow> string list
     \<Rightarrow> world \<Rightarrow> real list outcome option" where
  "runLoop 0 i durations E mode pauseBetweenRuns target command args w =
     Some (Return durations w)"
| "runLoop (Suc n) i durations E mode pauseBetweenRuns target command args w =
     (case measure_boot E mode target command args w of
        None \<Rightarrow> None
      | Some (Abort a w') \<Rightarrow> Some (Abort a w')
      | Some (Return duration w1) \<Rightarrow>
          if i < length durations then
            runLoop n (Suc i) (durations[i := real_of_int duration]) E mode pauseBetweenRuns
              target command args
              (time_Sleep pauseBetweenRuns (color_Print Green ''  - %s'' [D duration] w1))
          else Some (Abort (Panic ''index out of range'') w1))"

definition benchmark ::
  "env \<Rightarrow> stats \<Rightarrow> string \<Rightarrow> int \<Rightarrow> int \<Rightarrow> duration \<Rightarrow> string \<Rightarrow> string \<Rightarrow> string list \<Rightarrow> world
     \<Rightarrow> unit outcome option" where
  "benchmark E S mode dryRuns runs pauseBetweenRuns target command args w =
     (case dryRunLoop (nat dryRuns) E mode pauseBetweenRuns target command args
             (color_Print Cyan ''Dry runs'' [] w) of
        None \<Rightarrow> None
      | Some (Abort a w') \<Rightarrow> Some (Abort a w')
      | Some (Return _ w1) \<Rightarrow>
          if runs < 0 then Some (Abort (Panic ''makeslice: len out of range'') w1)
          else
            (case runLoop (nat runs) 0 (replicate (nat runs) 0) E mode pauseBetweenRuns
                    target command args (color_Print Green ''Runs'' [] w1) of
               None \<Rightarrow> None
             | Some (Abort a w') \<Rightarrow> Some (Abort a w')
             | Some (Return durations w2) \<Rightarrow>
                 (let min = fst (stats_Min S durations);
                      w3 = color_Print Yellow ''Min: %s'' [D (float64ToDuration min)] w2;
                      max = fst (stats_Max S durations);
                      w4 = color_Print Yellow ''Max: %s'' [D (float64ToDuration max)] w3;
                      med = fst (stats_Median S durations);
                      dev = fst (stats_StandardDeviation S durations);
                      w5 = color_Print Yellow ''Median: %s (std dev %s)''
                             [D (float64ToDuration med), D (float64ToDuration dev)] w4;
                      outliers = fst (stats_QuartileOutliers S durations);
                      w6 = color_Print Yellow ''Ouliers:'' [] w5;
                      w7 = color_Print Yellow ''  - mild: %s''
                             [Ds (float64DataToDurations (Mild outliers))] w6;
                      w8 = color_Print Yellow ''  - extreme: %s''
                             [Ds (float64DataToDurations (Extreme outliers))] w7;
                      w9 = color_Print Yellow ''Percentiles:'' [] w8
                  in Some (Return ()
                       (fold (\<lambda>p. color_Print Yellow ''  - %f%%: %s''
                                [F p, D (float64ToDuration (fst (stats_Percentile S durations p)))])
                          percentiles w9)))))"

definition int64_mul :: "int \<Rightarrow> int \<Rightarrow> int" where
  \<comment> \<open>the product of two 64-bit integers wraps around\<close>
  "int64_mul a b = (a * b + 2 ^ 63) mod 2 ^ 64 - 2 ^ 63"

definition main_action ::
  "env \<Rightarrow> stats \<Rightarrow> string \<Rightarrow> int \<Rightarrow> int \<Rightarrow> int \<Rightarrow> string \<Rightarrow> string \<Rightarrow> string list \<Rightarrow> world
     \<Rightarrow> unit outcome option" where
  \<comment> \<open>\<^verbatim>\<open>app.Action\<close> of \<^verbatim>\<open>main\<close>, on the values the flags were parsed to\<close>
  "main_action E S mode dryRuns runs pauseDuration target executable args w =
     (if length executable = 0
      then Some (Abort (Fatal ''An executable must be specified'') w)
      else benchmark E S mode dryRuns runs (int64_mul pauseDuration 1000000000) target
             executable args w)"

section \<open>The statistics, from the specification\<close>

text \<open>
  Modelled from the spec: the functions \<^verbatim>\<open>Min\<close>, \<^verbatim>\<open>Max\<close>, \<^verbatim>\<open>Median\<close>,
  \<^verbatim>\<open>StandardDeviation\<close>, \<^verbatim>\<open>QuartileOutliers\<close> and \<^verbatim>\<open>Percentile\<close> of the package
  \<^verbatim>\<open>github.com/montanaflynn/stats\<close>, whose source is not among the files of main.go. The
  definitions follow the words of the specification: standard formulas for the minimum, the
  maximum, the median and the standard deviation; the linear-interpolation percentile over
  the sorted RunSet; quartiles by that same interpolation; Tukey's fences at 1.5 and 3 times
  the interquartile range. On an empty RunSet each returns an error beside a zero value.
  What is proved of them is proved of the specification's statistics, not of the package.
\<close>

definition spec_Min :: "real list \<Rightarrow> real \<times> error" where
  \<comment> \<open>Modelled from the spec: the minimum of the RunSet; no statistic is defined on an empty one\<close>
  "spec_Min xs = (if xs = [] then (0, Some ''empty input'') else (Min (set xs), None))"

definition spec_Max :: "real list \<Rightarrow> real \<times> error" where
  \<comment> \<open>Modelled from the spec: the maximum of the RunSet\<close>
  "spec_Max xs = (if xs = [] then (0, Some ''empty input'') else (Max (set xs), None))"

definition spec_Median :: "real list \<Rightarrow> real \<times> error" where
  \<comment> \<open>Modelled from the spec: the median, the middle of the sorted RunSet or the mean of
      its two middle values\<close>
  "spec_Median xs =
     (if xs = [] then (0, Some ''empty input'')
      else (let s = sort xs; n = length s
            in if even n then (s ! (n div 2 - 1) + s ! (n div 2)) / 2 else s ! (n div 2),
            None))"

definition spec_StandardDeviation :: "real list \<Rightarrow> real \<times> error" where
  \<comment> \<open>Modelled from the spec: the standard deviation, by the standard formula over the
      whole RunSet\<close>
  "spec_StandardDeviation xs =
     (if xs = [] then (0, Some ''empty input'')
      else (let m = sum_list xs / real (length xs)
            in sqrt (sum_list (map (\<lambda>x. (x - m)\<^sup>2) xs) / real (length xs)),
            None))"

definition spec_Percentile :: "real list \<Rightarrow> real \<Rightarrow> real \<times> error" where
  \<comment> \<open>Modelled from the spec: the linear-interpolation percentile over the sorted RunSet\<close>
  "spec_Percentile xs p =
     (if xs = [] then (0, Some ''empty input'')
      else if p < 0 \<or> 100 < p then (0, Some ''out of bounds'')
      else (let s = sort xs;
                r = p / 100 * real (length s - 1);
                lo = nat \<lfloor>r\<rfloor>;
                hi = min (lo + 1) (length s - 1)
            in s ! lo + (r - real lo) * (s ! hi - s ! lo),
            None))"

definition spec_QuartileOutliers :: "real list \<Rightarrow> outliers \<times> error" where
  \<comment> \<open>Modelled from the spec: Q1 and Q3 by the percentile computation, IQR = Q3 - Q1; mild
      beyond 1.5 IQR from the nearest quartile but within 3 IQR, extreme beyond 3 IQR\<close>
  "spec_QuartileOutliers xs =
     (if xs = [] then (\<lparr>Mild = [], Extreme = []\<rparr>, Some ''empty input'')
      else (let q1 = fst (spec_Percentile xs 25);
                q3 = fst (spec_Percentile xs 75);
                iqr = q3 - q1
            in \<lparr>Mild = filter (\<lambda>v. (v < q1 - 1.5 * iqr \<or> q3 + 1.5 * iqr < v)
                                 \<and> q1 - 3 * iqr \<le> v \<and> v \<le> q3 + 3 * iqr) xs,
                Extreme = filter (\<lambda>v. v < q1 - 3 * iqr \<or> q3 + 3 * iqr < v) xs\<rparr>,
            None))"

definition spec_stats :: stats where
  \<comment> \<open>Modelled from the spec: the six statistics as one package\<close>
  "spec_stats =
     \<lparr>stats_Min = spec_Min, stats_Max = spec_Max, stats_Median = spec_Median,
      stats_StandardDeviation = spec_StandardDeviation,
      stats_QuartileOutliers = spec_QuartileOutliers,
      stats_Percentile = spec_Percentile\<rparr>"

section \<open>Vocabulary of the statements\<close>

definition ready :: "env \<Rightarrow> string \<Rightarrow> nat \<Rightarrow> string \<Rightarrow> bool" where
  \<comment> \<open>what attempt n against the target meets: a connection that opens (tcp-connect), a
      response with status 200 (http-get)\<close>
  "ready E mode n target =
     (if mode = ''tcp-connect'' then dial E n target
      else (case http_get E n target of None \<Rightarrow> False | Some r \<Rightarrow> StatusCode r = 200))"

definition world0 :: world where
  \<comment> \<open>nothing has happened yet\<close>
  "world0 = \<lparr>trace = [], reads = 0, spawns = 0, attempts = 0, running = {}, live = {},
     unread = (\<lambda>_. [])\<rparr>"

definition late_server :: "nat \<Rightarrow> env" where
  \<comment> \<open>a server that answers from attempt n on; the clock advances 1000 ns per reading\<close>
  "late_server n =
     \<lparr>clock = (\<lambda>i. 1000 * int i),
      start_error = (\<lambda>_ _ _. None),
      dial = (\<lambda>i _. n \<le> i),
      http_get = (\<lambda>i _. if i < n then (if even i then None
                                        else Some \<lparr>StatusCode = 503, payload = ''starting''\<rparr>)
                         else Some \<lparr>StatusCode = 200, payload = ''hello''\<rparr>)\<rparr>"

definition is_report :: "event \<Rightarrow> bool" where
  \<comment> \<open>the actions of benchmark itself: what it prints and its pauses\<close>
  "is_report e = (case e of Print _ _ _ \<Rightarrow> True | Sleep _ \<Rightarrow> True | _ \<Rightarrow> False)"

definition elapsed :: "env \<Rightarrow> nat \<Rightarrow> nat \<Rightarrow> duration" where
  \<comment> \<open>after r clock readings, measurement j reads the clock at r + 2j (its start) and at
      r + 2j + 1 (its first successful check); this is the duration it returns\<close>
  "elapsed E r j = time_Sub (clock E (r + 2 * j + 1)) (clock E (r + 2 * j))"

definition summary :: "stats \<Rightarrow> real list \<Rightarrow> event list" where
  \<comment> \<open>the statistics block of the report, lines 114 to 134, for a RunSet\<close>
  "summary S durations =
     [Print Yellow ''Min: %s'' [D (float64ToDuration (fst (stats_Min S durations)))],
      Print Yellow ''Max: %s'' [D (float64ToDuration (fst (stats_Max S durations)))],
      Print Yellow ''Median: %s (std dev %s)''
        [D (float64ToDuration (fst (stats_Median S durations))),
         D (float64ToDuration (fst (stats_StandardDeviation S durations)))],
      Print Yellow ''Ouliers:'' [],
      Print Yellow ''  - mild: %s''
        [Ds (map float64ToDuration (Mild (fst (stats_QuartileOutliers S durations))))],
      Print Yellow ''  - extreme: %s''
        [Ds (map float64ToDuration (Extreme (fst (stats_QuartileOutliers S durations))))],
      Print Yellow ''Percentiles:'' []]
     @ map (\<lambda>p. Print Yellow ''  - %f%%: %s''
              [F p, D (float64ToDuration (fst (stats_Percentile S durations p)))])
         [75, 80, 85, 90, 95, 97.5, 98, 99, 99.9, 100]"

definition failing_stats :: stats where
  \<comment> \<open>a package every call of which returns an error beside a zero value\<close>
  "failing_stats =
     \<lparr>stats_Min = (\<lambda>_. (0, Some ''empty input'')),
      stats_Max = (\<lambda>_. (0, Some ''empty input'')),
      stats_Median = (\<lambda>_. (0, Some ''empty input'')),
      stats_StandardDeviation = (\<lambda>_. (0, Some ''empty input'')),
      stats_QuartileOutliers = (\<lambda>_. (\<lparr>Mild = [], Extreme = []\<rparr>, Some ''empty input'')),
      stats_Percentile = (\<lambda>_ _. (0, Some ''empty input''))\<rparr>"

section \<open>The polling loop\<close>

lemma poll_retry:
  "\<not> fst (fst (f target w)) \<Longrightarrow>
   poll f target start cmd E w = poll f target start cmd E (snd (f target w))"
  by (subst poll.simps) (simp add: Let_def)

lemma poll_done:
  "fst (fst (f target w)) \<Longrightarrow> snd (fst (f target w)) = Some h \<Longrightarrow>
   poll f target start cmd E w =
     Some (Return (fst (time_Since E start (snd (f target w))))
       (Process_Wait cmd (Process_Kill cmd (h (snd (time_Since E start (snd (f target w))))))))"
  by (subst poll.simps) (simp add: Let_def)

lemma tcp_step:
  "fst (fst (tryConnectingWithTCP E target w)) = dial E (attempts w) target"
  "trace (snd (tryConnectingWithTCP E target w)) = trace w @ [Dial target]"
  "attempts (snd (tryConnectingWithTCP E target w)) = Suc (attempts w)"
  "reads (snd (tryConnectingWithTCP E target w)) = reads w"
  "spawns (snd (tryConnectingWithTCP E target w)) = spawns w"
  "running (snd (tryConnectingWithTCP E target w)) = running w"
  by (simp_all add: tryConnectingWithTCP_def net_Dial_def emit_def Let_def)

lemma tcp_houseKeeper_eq:
  "dial E (attempts w) target \<Longrightarrow>
   snd (fst (tryConnectingWithTCP E target w)) = Some (conn_Close (attempts w))"
  by (simp add: tryConnectingWithTCP_def net_Dial_def emit_def Let_def)

lemma http_step:
  "fst (fst (tryConnectingWithHTTPGet E target w))
     = (case http_get E (attempts w) target of None \<Rightarrow> False | Some r \<Rightarrow> StatusCode r = 200)"
  "trace (snd (tryConnectingWithHTTPGet E target w)) =
     trace w @ (if fst (fst (tryConnectingWithHTTPGet E target w))
                then [Get target, ReadAll (Body (attempts w))] else [Get target])"
  "attempts (snd (tryConnectingWithHTTPGet E target w)) = Suc (attempts w)"
  "reads (snd (tryConnectingWithHTTPGet E target w)) = reads w"
  "spawns (snd (tryConnectingWithHTTPGet E target w)) = spawns w"
  "running (snd (tryConnectingWithHTTPGet E target w)) = running w"
  by (simp_all add: tryConnectingWithHTTPGet_def http_Get_def ioutil_ReadAll_def emit_def Let_def
      split: option.splits)

lemma http_houseKeeper_eq:
  "fst (fst (tryConnectingWithHTTPGet E target w)) \<Longrightarrow>
   snd (fst (tryConnectingWithHTTPGet E target w)) = Some (Body_Close (attempts w))"
  by (auto simp: tryConnectingWithHTTPGet_def http_Get_def Let_def split: option.splits if_splits)

lemma poll_tcp:
  "\<forall>j<k. \<not> dial E (attempts w + j) target \<Longrightarrow> dial E (attempts w + k) target \<Longrightarrow>
   \<exists>w'. poll (tryConnectingWithTCP E) target start cmd E w
           = Some (Return (time_Sub (clock E (reads w)) start) w')
      \<and> trace w' = trace w @ replicate k (Dial target)
           @ [Dial target, Clock (clock E (reads w)), Close (Conn (attempts w + k)), Kill cmd, Wait cmd]
      \<and> reads w' = Suc (reads w) \<and> spawns w' = spawns w
      \<and> attempts w' = Suc (attempts w + k) \<and> running w' = running w - {cmd}"
proof (induction k arbitrary: w)
  case 0
  then have d: "dial E (attempts w) target" by simp
  have "poll (tryConnectingWithTCP E) target start cmd E w =
     Some (Return (fst (time_Since E start (snd (tryConnectingWithTCP E target w))))
       (Process_Wait cmd (Process_Kill cmd (conn_Close (attempts w)
          (snd (time_Since E start (snd (tryConnectingWithTCP E target w))))))))"
    by (rule poll_done) (simp_all add: tcp_step d tcp_houseKeeper_eq)
  then show ?case
    by (simp add: tcp_step d
        time_Since_def time_Now_def conn_Close_def Process_Kill_def Process_Wait_def emit_def)
next
  case (Suc k)
  let ?w1 = "snd (tryConnectingWithTCP E target w)"
  from Suc.prems(1) have no: "\<not> dial E (attempts w) target" by (metis add.right_neutral zero_less_Suc)
  have a: "\<forall>j<k. \<not> dial E (attempts ?w1 + j) target"
    using Suc.prems(1) by (auto simp: tcp_step)
  have b: "dial E (attempts ?w1 + k) target"
    using Suc.prems(2) by (simp add: tcp_step)
  from Suc.IH [OF a b] obtain w' where
    "poll (tryConnectingWithTCP E) target start cmd E ?w1
           = Some (Return (time_Sub (clock E (reads ?w1)) start) w')
      \<and> trace w' = trace ?w1 @ replicate k (Dial target)
           @ [Dial target, Clock (clock E (reads ?w1)), Close (Conn (attempts ?w1 + k)), Kill cmd, Wait cmd]
      \<and> reads w' = Suc (reads ?w1) \<and> spawns w' = spawns ?w1
      \<and> attempts w' = Suc (attempts ?w1 + k) \<and> running w' = running ?w1 - {cmd}"
    by blast
  then show ?case
    by (simp add: poll_retry [of "tryConnectingWithTCP E" target w] tcp_step no)
qed


lemma poll_http:
  "\<forall>j<k. \<not> ready E ''http-get'' (attempts w + j) target \<Longrightarrow>
   ready E ''http-get'' (attempts w + k) target \<Longrightarrow>
   \<exists>w'. poll (tryConnectingWithHTTPGet E) target start cmd E w
           = Some (Return (time_Sub (clock E (reads w)) start) w')
      \<and> trace w' = trace w @ replicate k (Get target)
           @ [Get target, ReadAll (Body (attempts w + k)), Clock (clock E (reads w)),
              Close (Body (attempts w + k)), Kill cmd, Wait cmd]
      \<and> reads w' = Suc (reads w) \<and> spawns w' = spawns w
      \<and> attempts w' = Suc (attempts w + k) \<and> running w' = running w - {cmd}"
proof (induction k arbitrary: w)
  case 0
  then have d': "case http_get E (attempts w) target of None \<Rightarrow> False | Some r \<Rightarrow> StatusCode r = 200"
    by (simp add: ready_def)
  then have d: "fst (fst (tryConnectingWithHTTPGet E target w))"
    by (simp add: http_step)
  have "poll (tryConnectingWithHTTPGet E) target start cmd E w =
     Some (Return (fst (time_Since E start (snd (tryConnectingWithHTTPGet E target w))))
       (Process_Wait cmd (Process_Kill cmd (Body_Close (attempts w)
          (snd (time_Since E start (snd (tryConnectingWithHTTPGet E target w))))))))"
    by (rule poll_done) (simp_all add: d http_houseKeeper_eq)
  then show ?case
    by (simp add: http_step d d'
        time_Since_def time_Now_def Body_Close_def Process_Kill_def Process_Wait_def emit_def)
next
  case (Suc k)
  let ?w1 = "snd (tryConnectingWithHTTPGet E target w)"
  from Suc.prems(1) have "\<not> ready E ''http-get'' (attempts w + 0) target" by blast
  then have no': "\<not> (case http_get E (attempts w) target of None \<Rightarrow> False | Some r \<Rightarrow> StatusCode r = 200)"
    by (simp add: ready_def)
  then have no: "\<not> fst (fst (tryConnectingWithHTTPGet E target w))"
    by (simp add: http_step)
  have a: "\<forall>j<k. \<not> ready E ''http-get'' (attempts ?w1 + j) target"
    using Suc.prems(1) by (auto simp: http_step)
  have b: "ready E ''http-get'' (attempts ?w1 + k) target"
    using Suc.prems(2) by (simp add: http_step)
  from Suc.IH [OF a b] obtain w' where
    "poll (tryConnectingWithHTTPGet E) target start cmd E ?w1
           = Some (Return (time_Sub (clock E (reads ?w1)) start) w')
      \<and> trace w' = trace ?w1 @ replicate k (Get target)
           @ [Get target, ReadAll (Body (attempts ?w1 + k)), Clock (clock E (reads ?w1)),
              Close (Body (attempts ?w1 + k)), Kill cmd, Wait cmd]
      \<and> reads w' = Suc (reads ?w1) \<and> spawns w' = spawns ?w1
      \<and> attempts w' = Suc (attempts ?w1 + k) \<and> running w' = running ?w1 - {cmd}"
    by blast
  then show ?case
    by (simp add: poll_retry [of "tryConnectingWithHTTPGet E" target w] no http_step no')
qed

lemma measure_boot_run:
  assumes mode: "mode = ''tcp-connect'' \<or> mode = ''http-get''"
    and start: "start_error E (spawns w) command args = None"
    and fails: "\<forall>j<k. \<not> ready E mode (attempts w + j) target"
    and ok: "ready E mode (attempts w + k) target"
  shows "\<exists>w'. measure_boot E mode target command args w
            = Some (Return (time_Sub (clock E (Suc (reads w))) (clock E (reads w))) w')
     \<and> trace w' = trace w @ [Clock (clock E (reads w)), Start command args]
          @ replicate k (if mode = ''tcp-connect'' then Dial target else Get target)
          @ (if mode = ''tcp-connect'' then [Dial target]
             else [Get target, ReadAll (Body (attempts w + k))])
          @ [Clock (clock E (Suc (reads w))),
             Close (if mode = ''tcp-connect'' then Conn (attempts w + k) else Body (attempts w + k)),
             Kill (spawns w), Wait (spawns w)]
     \<and> reads w' = reads w + 2 \<and> spawns w' = Suc (spawns w)
     \<and> attempts w' = attempts w + Suc k \<and> running w' = running w - {spawns w}"
proof -
  obtain w2 where w2: "boot E command args (snd (time_Now E w)) = (Inr (spawns w), w2)"
    "trace w2 = trace w @ [Clock (clock E (reads w)), Start command args]"
    "reads w2 = Suc (reads w)" "spawns w2 = Suc (spawns w)" "attempts w2 = attempts w"
    "running w2 = insert (spawns w) (running w)"
    using start by (simp add: boot_def time_Now_def emit_def Let_def)
  from mode show ?thesis
  proof
    assume m: "mode = ''tcp-connect''"
    have a: "\<forall>j<k. \<not> dial E (attempts w2 + j) target"
      using fails by (simp add: m ready_def w2)
    have b: "dial E (attempts w2 + k) target"
      using ok by (simp add: m ready_def w2)
    from poll_tcp [OF a b, of "clock E (reads w)" "spawns w"] w2 show ?thesis
      by (auto simp: measure_boot_def connectionFunctionFor_def m time_Now_def)
  next
    assume m: "mode = ''http-get''"
    have a: "\<forall>j<k. \<not> ready E ''http-get'' (attempts w2 + j) target"
      using fails by (simp add: m w2)
    have b: "ready E ''http-get'' (attempts w2 + k) target"
      using ok by (simp add: m w2)
    from poll_http [OF a b, of "clock E (reads w)" "spawns w"] w2 show ?thesis
      by (auto simp: measure_boot_def connectionFunctionFor_def m time_Now_def)
  qed
qed


text \<open>
  The loop returns only at a ready attempt: against a target that never becomes ready,
  measure does not return.
\<close>

lemma poll_returns_only_when_ready:
  assumes run: "poll f target start cmd E w = Some r"
    and f: "\<forall>v. fst (fst (f target v)) = rd (attempts v)"
           "\<forall>v. attempts (snd (f target v)) = Suc (attempts v)"
  shows "\<exists>k. rd (attempts w + k)"
proof -
  let ?P = "\<lambda>(f :: prober) target (start :: int) (cmd :: nat) (E :: env) w (r :: duration outcome).
      (\<forall>v. fst (fst (f target v)) = rd (attempts v))
      \<and> (\<forall>v. attempts (snd (f target v)) = Suc (attempts v)) \<longrightarrow> (\<exists>k. rd (attempts w + k))"
  have "?P f target start cmd E w r"
  proof (rule poll.raw_induct [where P = ?P, OF _ run], goal_cases)
    case (1 poll' f target start cmd E w r)
    show ?case
    proof
      assume a: "(\<forall>v. fst (fst (f target v)) = rd (attempts v))
        \<and> (\<forall>v. attempts (snd (f target v)) = Suc (attempts v))"
      show "\<exists>k. rd (attempts w + k)"
      proof (cases "fst (fst (f target w))")
        case True
        with a have "rd (attempts w + 0)" by simp
        then show ?thesis by blast
      next
        case False
        with 1(2) have "poll' f target start cmd E (snd (f target w)) = Some r"
          by (simp add: Let_def)
        from 1(1) [OF this] a obtain k where "rd (attempts (snd (f target w)) + k)" by blast
        with a have "rd (attempts w + Suc k)" by simp
        then show ?thesis by blast
      qed
    qed
  qed
  with f show ?thesis by blast
qed

lemma measure_boot_never_ready:
  assumes mode: "mode = ''tcp-connect'' \<or> mode = ''http-get''"
    and start: "start_error E (spawns w) command args = None"
    and never: "\<forall>k. \<not> ready E mode (attempts w + k) target"
  shows "measure_boot E mode target command args w = None"
proof (rule ccontr)
  assume "measure_boot E mode target command args w \<noteq> None"
  then obtain r where r: "measure_boot E mode target command args w = Some r" by blast
  obtain w2 where w2: "boot E command args (snd (time_Now E w)) = (Inr (spawns w), w2)"
    "attempts w2 = attempts w"
    using start by (simp add: boot_def time_Now_def emit_def Let_def)
  from mode show False
  proof
    assume m: "mode = ''tcp-connect''"
    from r w2 have "poll (tryConnectingWithTCP E) target (clock E (reads w)) (spawns w) E w2 = Some r"
      by (simp add: measure_boot_def connectionFunctionFor_def m time_Now_def)
    from poll_returns_only_when_ready [OF this, of "\<lambda>n. ready E mode n target"]
    have "\<exists>k. ready E mode (attempts w2 + k) target"
      by (simp add: tcp_step ready_def m)
    with never w2 show False by simp
  next
    assume m: "mode = ''http-get''"
    from r w2 have "poll (tryConnectingWithHTTPGet E) target (clock E (reads w)) (spawns w) E w2 = Some r"
      by (simp add: measure_boot_def connectionFunctionFor_def m time_Now_def)
    from poll_returns_only_when_ready [OF this, of "\<lambda>n. ready E mode n target"]
    have "\<exists>k. ready E mode (attempts w2 + k) target"
      by (simp add: http_step ready_def m)
    with never w2 show False by simp
  qed
qed

section \<open>The loops of benchmark\<close>

lemma measure_boot_returns:
  assumes mode: "mode = ''tcp-connect'' \<or> mode = ''http-get''"
    and start: "\<forall>n. start_error E n command args = None"
    and resp: "\<forall>n. \<exists>k. ready E mode (n + k) target"
  shows "\<exists>w'. measure_boot E mode target command args w = Some (Return (elapsed E (reads w) 0) w')
     \<and> reads w' = reads w + 2 \<and> spawns w' = Suc (spawns w)
     \<and> filter is_report (trace w') = filter is_report (trace w)
     \<and> (\<exists>tr. trace w' = trace w @ tr)"
proof -
  define k where "k = (LEAST k. ready E mode (attempts w + k) target)"
  from resp have ex: "\<exists>k. ready E mode (attempts w + k) target" by blast
  then have ok: "ready E mode (attempts w + k) target"
    unfolding k_def by (rule LeastI_ex)
  have fails: "\<forall>j<k. \<not> ready E mode (attempts w + j) target"
    unfolding k_def using not_less_Least by blast
  from start have s: "start_error E (spawns w) command args = None" by blast
  from measure_boot_run [OF mode s fails ok] obtain w' where
    w': "measure_boot E mode target command args w
            = Some (Return (time_Sub (clock E (Suc (reads w))) (clock E (reads w))) w')"
     "trace w' = trace w @ [Clock (clock E (reads w)), Start command args]
          @ replicate k (if mode = ''tcp-connect'' then Dial target else Get target)
          @ (if mode = ''tcp-connect'' then [Dial target]
             else [Get target, ReadAll (Body (attempts w + k))])
          @ [Clock (clock E (Suc (reads w))),
             Close (if mode = ''tcp-connect'' then Conn (attempts w + k) else Body (attempts w + k)),
             Kill (spawns w), Wait (spawns w)]"
     "reads w' = reads w + 2" "spawns w' = Suc (spawns w)"
    by blast
  have "filter is_report (trace w') = filter is_report (trace w)"
    by (simp add: w'(2) is_report_def)
  with w' show ?thesis by (auto simp: elapsed_def)
qed

lemma dryRunLoop_returns:
  assumes mode: "mode = ''tcp-connect'' \<or> mode = ''http-get''"
    and start: "\<forall>n. start_error E n command args = None"
    and resp: "\<forall>n. \<exists>k. ready E mode (n + k) target"
  shows "\<exists>w'. dryRunLoop n E mode pause target command args w = Some (Return () w')
     \<and> reads w' = reads w + 2 * n \<and> spawns w' = spawns w + n
     \<and> filter is_report (trace w') = filter is_report (trace w)
          @ concat (map (\<lambda>j. [Print Cyan ''  - %s'' [D (elapsed E (reads w) j)], Sleep pause]) [0..<n])
     \<and> (\<exists>tr. trace w' = trace w @ tr)"
proof (induction n arbitrary: w)
  case 0
  show ?case by simp
next
  case (Suc n)
  from measure_boot_returns [OF mode start resp, of w] obtain w1 where
    w1: "measure_boot E mode target command args w = Some (Return (elapsed E (reads w) 0) w1)"
      "reads w1 = reads w + 2" "spawns w1 = Suc (spawns w)"
      "filter is_report (trace w1) = filter is_report (trace w)"
      "\<exists>tr. trace w1 = trace w @ tr"
    by blast
  let ?w2 = "time_Sleep pause (color_Print Cyan ''  - %s'' [D (elapsed E (reads w) 0)] w1)"
  have w2: "reads ?w2 = reads w + 2" "spawns ?w2 = Suc (spawns w)"
    "filter is_report (trace ?w2) = filter is_report (trace w)
       @ [Print Cyan ''  - %s'' [D (elapsed E (reads w) 0)], Sleep pause]"
    "\<exists>tr. trace ?w2 = trace w @ tr"
    using w1 by (auto simp: time_Sleep_def color_Print_def emit_def is_report_def)
  have sh: "\<And>j. elapsed E (Suc (Suc (reads w))) j = elapsed E (reads w) (Suc j)"
    by (simp add: elapsed_def)
  from Suc.IH [of ?w2] obtain w' where
    w': "dryRunLoop n E mode pause target command args ?w2 = Some (Return () w')"
      "reads w' = reads ?w2 + 2 * n" "spawns w' = spawns ?w2 + n"
      "filter is_report (trace w') = filter is_report (trace ?w2)
          @ concat (map (\<lambda>j. [Print Cyan ''  - %s'' [D (elapsed E (reads ?w2) j)], Sleep pause]) [0..<n])"
      "\<exists>tr. trace w' = trace ?w2 @ tr"
    by blast
  have m: "map (\<lambda>j. [Print Cyan ''  - %s'' [D (elapsed E (reads w) j)], Sleep pause]) [0..<Suc n]
     = [Print Cyan ''  - %s'' [D (elapsed E (reads w) 0)], Sleep pause]
       # map (\<lambda>j. [Print Cyan ''  - %s'' [D (elapsed E (reads w) (Suc j))], Sleep pause]) [0..<n]"
    by (simp only: upt_conv_Cons [OF zero_less_Suc] list.map map_Suc_upt [symmetric] map_map o_def)
  from w2(4) w'(5) have ext: "\<exists>tr. trace w' = trace w @ tr" by auto
  show ?case
    using w' ext by (simp add: w1(1) w2 sh m del: upt_Suc)
qed


lemma runLoop_returns:
  assumes mode: "mode = ''tcp-connect'' \<or> mode = ''http-get''"
    and start: "\<forall>n. start_error E n command args = None"
    and resp: "\<forall>n. \<exists>k. ready E mode (n + k) target"
  shows "i + n \<le> length ds \<Longrightarrow>
     \<exists>w'. runLoop n i ds E mode pause target command args w
            = Some (Return (take i ds @ map (\<lambda>j. real_of_int (elapsed E (reads w) j)) [0..<n]
                              @ drop (i + n) ds) w')
     \<and> reads w' = reads w + 2 * n \<and> spawns w' = spawns w + n
     \<and> filter is_report (trace w') = filter is_report (trace w)
          @ concat (map (\<lambda>j. [Print Green ''  - %s'' [D (elapsed E (reads w) j)], Sleep pause]) [0..<n])
     \<and> (\<exists>tr. trace w' = trace w @ tr)"
proof (induction n arbitrary: i ds w)
  case 0
  show ?case by simp
next
  case (Suc n)
  from measure_boot_returns [OF mode start resp, of w] obtain w1 where
    w1: "measure_boot E mode target command args w = Some (Return (elapsed E (reads w) 0) w1)"
      "reads w1 = reads w + 2" "spawns w1 = Suc (spawns w)"
      "filter is_report (trace w1) = filter is_report (trace w)"
      "\<exists>tr. trace w1 = trace w @ tr"
    by blast
  let ?w2 = "time_Sleep pause (color_Print Green ''  - %s'' [D (elapsed E (reads w) 0)] w1)"
  let ?ds = "ds[i := real_of_int (elapsed E (reads w) 0)]"
  have w2: "reads ?w2 = reads w + 2" "spawns ?w2 = Suc (spawns w)"
    "filter is_report (trace ?w2) = filter is_report (trace w)
       @ [Print Green ''  - %s'' [D (elapsed E (reads w) 0)], Sleep pause]"
    "\<exists>tr. trace ?w2 = trace w @ tr"
    using w1 by (auto simp: time_Sleep_def color_Print_def emit_def is_report_def)
  have sh: "\<And>j. elapsed E (Suc (Suc (reads w))) j = elapsed E (reads w) (Suc j)"
    by (simp add: elapsed_def)
  from Suc.prems have i: "i < length ds" and le: "Suc i + n \<le> length ?ds" by simp_all
  from Suc.IH [OF le, of ?w2] obtain w' where
    w': "runLoop n (Suc i) ?ds E mode pause target command args ?w2
           = Some (Return (take (Suc i) ?ds @ map (\<lambda>j. real_of_int (elapsed E (reads ?w2) j)) [0..<n]
                              @ drop (Suc i + n) ?ds) w')"
      "reads w' = reads ?w2 + 2 * n" "spawns w' = spawns ?w2 + n"
      "filter is_report (trace w') = filter is_report (trace ?w2)
          @ concat (map (\<lambda>j. [Print Green ''  - %s'' [D (elapsed E (reads ?w2) j)], Sleep pause]) [0..<n])"
      "\<exists>tr. trace w' = trace ?w2 @ tr"
    by blast
  have m: "\<And>f::nat \<Rightarrow> 'b. map f [0..<Suc n] = f 0 # map (\<lambda>j. f (Suc j)) [0..<n]"
    by (simp only: upt_conv_Cons [OF zero_less_Suc] list.map map_Suc_upt [symmetric] map_map o_def)
  have t: "take (Suc i) ?ds = take i ds @ [real_of_int (elapsed E (reads w) 0)]"
    using i by (simp add: take_Suc_conv_app_nth)
  from w2(4) w'(5) have ext: "\<exists>tr. trace w' = trace w @ tr" by auto
  show ?case
    using w' ext i by (simp add: w1(1) w2 sh m t del: upt_Suc)
qed


lemma fold_Print:
  "fold (\<lambda>p. color_Print c format (g p)) ps w
     = w\<lparr>trace := trace w @ map (\<lambda>p. Print c format (g p)) ps\<rparr>"
  by (induction ps arbitrary: w) (simp_all add: color_Print_def emit_def)

lemma map_shift_upt: "map (\<lambda>j. f (j + d)) [0..<r] = map f [d..<d + r]"
proof -
  have "map (\<lambda>j. f (j + d)) [0..<r] = map f (map (\<lambda>j. j + d) [0..<r])"
    by (simp add: o_def)
  also have "\<dots> = map f [d..<d + r]"
    by (simp only: map_add_upt add.commute)
  finally show ?thesis .
qed

lemma benchmark_after_loops:
  assumes d: "dryRunLoop (nat dryRuns) E mode pause target command args
                (color_Print Cyan ''Dry runs'' [] w) = Some (Return () w1)"
    and r: "runLoop (nat runs) 0 (replicate (nat runs) 0) E mode pause target command args
                (color_Print Green ''Runs'' [] w1) = Some (Return durations w2)"
    and runs: "0 \<le> runs"
  shows "benchmark E S mode dryRuns runs pause target command args w
     = Some (Return () (w2\<lparr>trace := trace w2 @ summary S durations\<rparr>))"
  using runs
  by (simp add: benchmark_def d r Let_def fold_Print)
    (simp add: color_Print_def emit_def summary_def percentiles_def float64DataToDurations_def)

lemma runLoop_length:
  "runLoop n i ds E mode pause target command args w = Some (Return ds' w') \<Longrightarrow>
   length ds' = length ds"
proof (induction n arbitrary: i ds w)
  case 0
  then show ?case by simp
next
  case (Suc n)
  from Suc.prems obtain d w1 where
    m: "measure_boot E mode target command args w = Some (Return d w1)"
    by (auto split: option.splits outcome.splits)
  from Suc.prems m have i: "i < length ds"
    by (auto split: if_splits)
  from Suc.prems m i have
    "runLoop n (Suc i) (ds[i := real_of_int d]) E mode pause target command args
       (time_Sleep pause (color_Print Green ''  - %s'' [D d] w1)) = Some (Return ds' w')"
    by simp
  from Suc.IH [OF this] show ?case by simp
qed

lemma benchmark_returns_cases:
  assumes "benchmark E S mode dryRuns runs pause target command args w = Some (Return u w')"
  shows "0 \<le> runs \<and> (\<exists>w1 w2 durations.
     runLoop (nat runs) 0 (replicate (nat runs) 0) E mode pause target command args w1
        = Some (Return durations w2)
     \<and> length durations = nat runs
     \<and> w' = w2\<lparr>trace := trace w2 @ summary S durations\<rparr>)"
proof -
  from assms obtain w1 where
    d: "dryRunLoop (nat dryRuns) E mode pause target command args
          (color_Print Cyan ''Dry runs'' [] w) = Some (Return () w1)"
    unfolding benchmark_def by (auto split: option.splits outcome.splits)
  from assms have runs: "0 \<le> runs"
    unfolding benchmark_def d by (auto split: if_splits)
  from assms runs obtain durations w2 where
    r: "runLoop (nat runs) 0 (replicate (nat runs) 0) E mode pause target command args
          (color_Print Green ''Runs'' [] w1) = Some (Return durations w2)"
    unfolding benchmark_def d by (auto split: option.splits outcome.splits)
  from benchmark_after_loops [OF d r runs, of S] assms
  have "w' = w2\<lparr>trace := trace w2 @ summary S durations\<rparr>" by simp
  moreover from runLoop_length [OF r] have "length durations = nat runs" by simp
  ultimately show ?thesis using r runs by blast
qed

lemma benchmark_no_runs:
  assumes "dryRuns \<le> 0"
  shows "benchmark E S mode dryRuns 0 pause target command args w
     = Some (Return () (w\<lparr>trace := trace w @ Print Cyan ''Dry runs'' [] # Print Green ''Runs'' []
                              # summary S []\<rparr>))"
proof -
  let ?w1 = "color_Print Cyan ''Dry runs'' [] w"
  let ?w2 = "color_Print Green ''Runs'' [] ?w1"
  have d: "dryRunLoop (nat dryRuns) E mode pause target command args ?w1 = Some (Return () ?w1)"
    using assms by simp
  have r: "runLoop (nat 0) 0 (replicate (nat 0) 0) E mode pause target command args ?w2
     = Some (Return [] ?w2)"
    by simp
  have z: "(0::int) \<le> 0" by simp
  from benchmark_after_loops [OF d r z, of S] show ?thesis
    by (simp add: color_Print_def emit_def)
qed

lemma measure_boot_unknown_mode:
  "mode \<noteq> ''tcp-connect'' \<Longrightarrow> mode \<noteq> ''http-get'' \<Longrightarrow>
   measure_boot E mode target command args w = Some (Abort (Fatal (''Unknow mode: '' @ mode)) w)"
  by (simp add: measure_boot_def connectionFunctionFor_def)

lemma benchmark_unknown_mode:
  assumes m: "mode \<noteq> ''tcp-connect''" "mode \<noteq> ''http-get''"
    and n: "0 < dryRuns \<or> 0 < runs"
  shows "benchmark E S mode dryRuns runs pause target command args w
     = Some (Abort (Fatal (''Unknow mode: '' @ mode))
         (w\<lparr>trace := trace w @ (if 0 < dryRuns then [Print Cyan ''Dry runs'' []]
                                  else [Print Cyan ''Dry runs'' [], Print Green ''Runs'' []])\<rparr>))"
proof (cases "0 < dryRuns")
  case True
  then obtain k where k: "nat dryRuns = Suc k" by (cases "nat dryRuns") auto
  show ?thesis
    by (simp add: benchmark_def k measure_boot_unknown_mode [OF m] True color_Print_def emit_def)
next
  case False
  with n have r: "0 < runs" by simp
  then obtain k where k: "nat runs = Suc k" by (cases "nat runs") auto
  from False have d: "nat dryRuns = 0" by simp
  show ?thesis using r
    by (simp add: benchmark_def k d measure_boot_unknown_mode [OF m] False color_Print_def emit_def)
qed

lemma poll_no_panic:
  assumes run: "poll f target start cmd E w = Some r"
    and f: "\<forall>t v. fst (fst (f t v)) \<longrightarrow> snd (fst (f t v)) \<noteq> None"
  shows "r \<noteq> Abort (Panic msg) w'"
proof -
  have "(\<forall>t v. fst (fst (f t v)) \<longrightarrow> snd (fst (f t v)) \<noteq> None) \<longrightarrow> r \<noteq> Abort (Panic msg) w'"
  proof (rule poll.raw_induct
      [where P = "\<lambda>f target start cmd E w r.
          (\<forall>t v. fst (fst (f t v)) \<longrightarrow> snd (fst (f t v)) \<noteq> None) \<longrightarrow> r \<noteq> Abort (Panic msg) w'",
        OF _ run], goal_cases)
    case (1 poll' f target start cmd E w r)
    show ?case
    proof
      assume ok: "\<forall>t v. fst (fst (f t v)) \<longrightarrow> snd (fst (f t v)) \<noteq> None"
      show "r \<noteq> Abort (Panic msg) w'"
      proof (cases "fst (fst (f target w))")
        case True
        with ok obtain h where h: "snd (fst (f target w)) = Some h" by auto
        with True 1(2) have "\<exists>d v. r = Return d v" by (auto simp: Let_def)
        then show ?thesis by auto
      next
        case False
        with 1(2) have "poll' f target start cmd E (snd (f target w)) = Some r"
          by (simp add: Let_def)
        from 1(1) [OF this] ok show ?thesis by blast
      qed
    qed
  qed
  with f show ?thesis by blast
qed

lemma tcp_houseKeeper:
  "fst (fst (tryConnectingWithTCP E target w)) = (snd (fst (tryConnectingWithTCP E target w)) \<noteq> None)"
  by (simp add: tryConnectingWithTCP_def net_Dial_def Let_def)

lemma http_houseKeeper:
  "fst (fst (tryConnectingWithHTTPGet E target w)) = (snd (fst (tryConnectingWithHTTPGet E target w)) \<noteq> None)"
  by (simp add: tryConnectingWithHTTPGet_def http_Get_def Let_def split: option.splits)

section \<open>Facts about the specification's statistics\<close>

lemma sorted_nth_bounds:
  fixes xs :: "real list"
  assumes "i < length xs"
  shows "Min (set xs) \<le> sort xs ! i" and "sort xs ! i \<le> Max (set xs)"
proof -
  from assms have "sort xs ! i \<in> set (sort xs)" by (intro nth_mem) simp
  then have m: "sort xs ! i \<in> set xs" by (simp only: set_sort)
  then show "Min (set xs) \<le> sort xs ! i" by simp
  from m show "sort xs ! i \<le> Max (set xs)" by simp
qed

lemma percentile_replicate:
  assumes n: "0 < n" and p: "0 \<le> p" "p \<le> 100"
  shows "spec_Percentile (replicate n v) p = (v, None)"
proof -
  let ?r = "p / 100 * real (n - 1)"
  have "?r \<le> 1 * real (n - 1)"
    using p by (intro mult_right_mono) simp_all
  then have "\<lfloor>?r\<rfloor> \<le> \<lfloor>real (n - 1)\<rfloor>" by (intro floor_mono) simp
  then have lo: "nat \<lfloor>?r\<rfloor> < n" using n by simp
  have hi: "min (nat \<lfloor>?r\<rfloor> + 1) (n - 1) < n" using n by simp
  from n have ne: "replicate n v \<noteq> []" by simp
  show ?thesis
    using p lo hi n unfolding spec_Percentile_def Let_def
    by simp
qed

lemma stats_replicate:
  assumes n: "0 < n"
  shows "spec_StandardDeviation (replicate n v) = (0, None)"
    and "spec_Min (replicate n v) = (v, None)"
    and "spec_Max (replicate n v) = (v, None)"
    and "spec_Median (replicate n v) = (v, None)"
    and "\<forall>p\<in>set percentiles. spec_Percentile (replicate n v) p = (v, None)"
    and "spec_QuartileOutliers (replicate n v) = (\<lparr>Mild = [], Extreme = []\<rparr>, None)"
proof -
  from n have ne: "replicate n v \<noteq> []" by simp
  from n have set: "set (replicate n v) = {v}" by simp
  have mean: "sum_list (replicate n v) / real (length (replicate n v)) = v"
    using n by (simp add: sum_list_replicate)
  show "spec_StandardDeviation (replicate n v) = (0, None)"
    unfolding spec_StandardDeviation_def Let_def mean
    using n by (simp add: sum_list_replicate)
  show "spec_Min (replicate n v) = (v, None)"
    using n by (simp add: spec_Min_def)
  show "spec_Max (replicate n v) = (v, None)"
    using n by (simp add: spec_Max_def)
  from n have a: "n div 2 - 1 < n" and b: "n div 2 < n" by arith+
  then show "spec_Median (replicate n v) = (v, None)"
    using n by (simp add: spec_Median_def Let_def)
  show "\<forall>p\<in>set percentiles. spec_Percentile (replicate n v) p = (v, None)"
    by (simp add: percentiles_def percentile_replicate [OF n])
  show "spec_QuartileOutliers (replicate n v) = (\<lparr>Mild = [], Extreme = []\<rparr>, None)"
    using n by (simp add: spec_QuartileOutliers_def Let_def percentile_replicate [OF n])
qed

section \<open>The probers\<close>

text \<open>
  C4. The tcp-connect prober reports success exactly when the connection opens without
  error. On success the only action is the dial (nothing is read), the connection is
  open, and the house keeper returned is the function that closes that connection. On
  failure the result is false with a nil house keeper, and nothing is left open.
\<close>

theorem tryConnectingWithTCP_spec:
  "fst (fst (tryConnectingWithTCP E target w)) = dial E (attempts w) target
   \<and> trace (snd (tryConnectingWithTCP E target w)) = trace w @ [Dial target]
   \<and> unread (snd (tryConnectingWithTCP E target w)) = unread w
   \<and> (if dial E (attempts w) target
      then snd (fst (tryConnectingWithTCP E target w)) = Some (conn_Close (attempts w))
         \<and> live (snd (tryConnectingWithTCP E target w)) = insert (Conn (attempts w)) (live w)
         \<and> live (conn_Close (attempts w) (snd (tryConnectingWithTCP E target w)))
             = live w - {Conn (attempts w)}
      else fst (tryConnectingWithTCP E target w) = (False, None)
         \<and> live (snd (tryConnectingWithTCP E target w)) = live w)"
  by (simp add: tryConnectingWithTCP_def net_Dial_def conn_Close_def emit_def Let_def)

text \<open>
  C3. The http-get prober reports success exactly when the request returns a response
  (no transport error) whose status code is 200. On success the body has been read to its
  end before the prober returns, and the house keeper returned is the function that closes
  that body. On a transport error, and on any other status code, the result is false with a
  nil house keeper; on another status code the body of that response is left open and
  unread.
\<close>

theorem tryConnectingWithHTTPGet_spec:
  "fst (fst (tryConnectingWithHTTPGet E target w))
     = (case http_get E (attempts w) target of None \<Rightarrow> False | Some r \<Rightarrow> StatusCode r = 200)
   \<and> (case http_get E (attempts w) target of
        None \<Rightarrow>
          fst (tryConnectingWithHTTPGet E target w) = (False, None)
          \<and> trace (snd (tryConnectingWithHTTPGet E target w)) = trace w @ [Get target]
          \<and> live (snd (tryConnectingWithHTTPGet E target w)) = live w
      | Some r \<Rightarrow>
          if StatusCode r = 200
          then snd (fst (tryConnectingWithHTTPGet E target w)) = Some (Body_Close (attempts w))
             \<and> trace (snd (tryConnectingWithHTTPGet E target w))
                 = trace w @ [Get target, ReadAll (Body (attempts w))]
             \<and> unread (snd (tryConnectingWithHTTPGet E target w)) (attempts w) = []
             \<and> live (snd (tryConnectingWithHTTPGet E target w)) = insert (Body (attempts w)) (live w)
             \<and> live (Body_Close (attempts w) (snd (tryConnectingWithHTTPGet E target w)))
                 = live w - {Body (attempts w)}
          else fst (tryConnectingWithHTTPGet E target w) = (False, None)
             \<and> trace (snd (tryConnectingWithHTTPGet E target w)) = trace w @ [Get target]
             \<and> unread (snd (tryConnectingWithHTTPGet E target w)) (attempts w) = payload r
             \<and> live (snd (tryConnectingWithHTTPGet E target w)) = insert (Body (attempts w)) (live w))"
  by (simp add: tryConnectingWithHTTPGet_def http_Get_def ioutil_ReadAll_def Body_Close_def
        emit_def Let_def split: option.splits)

text \<open>
  C10. Each prober reports success exactly when the house keeper it returns is not nil.
  So the call of the house keeper in measure, which no check guards, is never a call of
  nil: measure never ends in a panic, whatever the mode and the environment.
\<close>

theorem houseKeeper_never_nil:
  "fst (fst (tryConnectingWithTCP E target w))
     = (snd (fst (tryConnectingWithTCP E target w)) \<noteq> None)
   \<and> fst (fst (tryConnectingWithHTTPGet E target w))
     = (snd (fst (tryConnectingWithHTTPGet E target w)) \<noteq> None)
   \<and> measure_boot E mode target command args w \<noteq> Some (Abort (Panic msg) w')"
proof -
  have "measure_boot E mode target command args w \<noteq> Some (Abort (Panic msg) w')"
  proof
    assume a: "measure_boot E mode target command args w = Some (Abort (Panic msg) w')"
    then consider "mode = ''tcp-connect''" | "mode = ''http-get''"
      by (auto simp: measure_boot_def connectionFunctionFor_def split: if_splits)
    then show False
    proof cases
      case 1
      with a obtain start cmd w2 where
        "poll (tryConnectingWithTCP E) target start cmd E w2 = Some (Abort (Panic msg) w')"
        by (auto simp: measure_boot_def connectionFunctionFor_def split: prod.splits sum.splits)
      from poll_no_panic [OF this, of msg w'] show False
        by (simp add: tcp_houseKeeper)
    next
      case 2
      with a obtain start cmd w2 where
        "poll (tryConnectingWithHTTPGet E) target start cmd E w2 = Some (Abort (Panic msg) w')"
        by (auto simp: measure_boot_def connectionFunctionFor_def split: prod.splits sum.splits)
      from poll_no_panic [OF this, of msg w'] show False
        by (simp add: http_houseKeeper)
    qed
  qed
  with tcp_houseKeeper [of E target w] http_houseKeeper [of E target w]
  show ?thesis by blast
qed

text \<open>
  C1. For both modes: when the child starts and attempt k (counted from the call) is the
  first ready one, measure reads the clock, starts the child, makes the k failing checks and
  the successful one back to back, reads the clock again, calls the house keeper, kills the
  child and waits for it, in this order and with nothing else in between, and returns the
  difference of the two readings. k is arbitrary: no number of failures ends the loop.
\<close>

theorem measure_first_success:
  assumes mode: "mode = ''tcp-connect'' \<or> mode = ''http-get''"
    and start: "start_error E (spawns w) command args = None"
    and fails: "\<forall>j<k. \<not> ready E mode (attempts w + j) target"
    and ok: "ready E mode (attempts w + k) target"
  shows "\<exists>w'. measure_boot E mode target command args w
            = Some (Return (time_Sub (clock E (Suc (reads w))) (clock E (reads w))) w')
     \<and> trace w' = trace w @ [Clock (clock E (reads w)), Start command args]
          @ replicate k (if mode = ''tcp-connect'' then Dial target else Get target)
          @ (if mode = ''tcp-connect'' then [Dial target]
             else [Get target, ReadAll (Body (attempts w + k))])
          @ [Clock (clock E (Suc (reads w))),
             Close (if mode = ''tcp-connect'' then Conn (attempts w + k) else Body (attempts w + k)),
             Kill (spawns w), Wait (spawns w)]
     \<and> reads w' = reads w + 2 \<and> spawns w' = Suc (spawns w)
     \<and> attempts w' = attempts w + Suc k \<and> running w' = running w - {spawns w}"
  using assms by (rule measure_boot_run)

theorem measure_first_success_witness:
  "\<exists>w'. measure_boot (late_server 2) ''http-get'' ''http://localhost:8080/'' ''python'' [''-m''] world0
            = Some (Return 1000 w')
     \<and> trace w' = [Clock 0, Start ''python'' [''-m''],
          Get ''http://localhost:8080/'', Get ''http://localhost:8080/'',
          Get ''http://localhost:8080/'', ReadAll (Body 2), Clock 1000, Close (Body 2),
          Kill 0, Wait 0]"
proof -
  have m: "''http-get'' = ''tcp-connect'' \<or> ''http-get'' = ''http-get''" by simp
  have s: "start_error (late_server 2) (spawns world0) ''python'' [''-m''] = None"
    by (simp add: late_server_def)
  have f: "\<forall>j<2. \<not> ready (late_server 2) ''http-get'' (attempts world0 + j) ''http://localhost:8080/''"
    by (simp add: ready_def late_server_def world0_def)
  have k: "ready (late_server 2) ''http-get'' (attempts world0 + 2) ''http://localhost:8080/''"
    by (simp add: ready_def late_server_def world0_def)
  from measure_first_success [OF m s f k] show ?thesis
    by (simp add: late_server_def world0_def time_Sub_def numeral_2_eq_2) blast
qed

text \<open>
  C2. When the mode is one of the two, the child always starts and the target always
  becomes ready in the end, benchmark returns, and what it printed and slept is: the heading
  of the dry runs; for each of the dryRuns measurements its duration and a sleep of
  pauseBetweenRuns; the heading of the runs; for each of the runs measurements its duration
  and a sleep of pauseBetweenRuns; and last of all the statistics, computed over the list
  of the runs measurements' durations in the order they were taken, which has runs entries.
  Measurement j (counted from 0 over the whole benchmark) is the one between clock readings
  2j and 2j+1; exactly dryRuns + runs children are started.
\<close>

theorem benchmark_runs:
  assumes mode: "mode = ''tcp-connect'' \<or> mode = ''http-get''"
    and start: "\<forall>n. start_error E n command args = None"
    and resp: "\<forall>n. \<exists>k. ready E mode (n + k) target"
    and dry: "0 \<le> dryRuns" and runs: "0 \<le> runs"
  shows "\<exists>w' tr. benchmark E S mode dryRuns runs pause target command args w = Some (Return () w')
     \<and> filter is_report (trace w') = filter is_report (trace w)
          @ [Print Cyan ''Dry runs'' []]
          @ concat (map (\<lambda>j. [Print Cyan ''  - %s'' [D (elapsed E (reads w) j)], Sleep pause])
              [0..<nat dryRuns])
          @ [Print Green ''Runs'' []]
          @ concat (map (\<lambda>j. [Print Green ''  - %s'' [D (elapsed E (reads w) j)], Sleep pause])
              [nat dryRuns..<nat dryRuns + nat runs])
          @ summary S (map (\<lambda>j. real_of_int (elapsed E (reads w) j))
              [nat dryRuns..<nat dryRuns + nat runs])
     \<and> trace w' = trace w @ tr @ summary S (map (\<lambda>j. real_of_int (elapsed E (reads w) j))
              [nat dryRuns..<nat dryRuns + nat runs])
     \<and> length (map (\<lambda>j. real_of_int (elapsed E (reads w) j))
              [nat dryRuns..<nat dryRuns + nat runs]) = nat runs
     \<and> spawns w' = spawns w + nat dryRuns + nat runs
     \<and> reads w' = reads w + 2 * (nat dryRuns + nat runs)"
proof -
  let ?d = "nat dryRuns" and ?r = "nat runs"
  let ?w0 = "color_Print Cyan ''Dry runs'' [] w"
  have w0: "reads ?w0 = reads w" "spawns ?w0 = spawns w"
    "trace ?w0 = trace w @ [Print Cyan ''Dry runs'' []]"
    by (simp_all add: color_Print_def emit_def)
  from dryRunLoop_returns [OF mode start resp, of ?d pause ?w0] obtain w1 tr1 where
    w1: "dryRunLoop ?d E mode pause target command args ?w0 = Some (Return () w1)"
      "reads w1 = reads w + 2 * ?d" "spawns w1 = spawns w + ?d"
      "filter is_report (trace w1) = filter is_report (trace w) @ [Print Cyan ''Dry runs'' []]
          @ concat (map (\<lambda>j. [Print Cyan ''  - %s'' [D (elapsed E (reads w) j)], Sleep pause]) [0..<?d])"
      "trace w1 = trace w @ [Print Cyan ''Dry runs'' []] @ tr1"
    by (auto simp: w0 is_report_def)
  let ?w1 = "color_Print Green ''Runs'' [] w1"
  have w1': "reads ?w1 = reads w1" "spawns ?w1 = spawns w1"
    "trace ?w1 = trace w1 @ [Print Green ''Runs'' []]"
    by (simp_all add: color_Print_def emit_def)
  have sh: "\<And>j. elapsed E (reads w + 2 * ?d) j = elapsed E (reads w) (j + ?d)"
    by (simp add: elapsed_def algebra_simps)
  let ?R = "map (\<lambda>j. real_of_int (elapsed E (reads w) j)) [?d..<?d + ?r]"
  let ?G = "map (\<lambda>j. [Print Green ''  - %s'' [D (elapsed E (reads w) j)], Sleep pause]) [?d..<?d + ?r]"
  have m1: "map (\<lambda>j. real_of_int (elapsed E (reads ?w1) j)) [0..<?r] = ?R"
    using map_shift_upt [of "\<lambda>j. real_of_int (elapsed E (reads w) j)" ?d ?r]
    by (simp add: w1' w1 sh)
  have m2: "map (\<lambda>j. [Print Green ''  - %s'' [D (elapsed E (reads ?w1) j)], Sleep pause]) [0..<?r] = ?G"
    using map_shift_upt [of "\<lambda>j. [Print Green ''  - %s'' [D (elapsed E (reads w) j)], Sleep pause]" ?d ?r]
    by (simp add: w1' w1 sh)
  have le: "0 + ?r \<le> length (replicate ?r (0::real))" by simp
  from runLoop_returns [OF mode start resp le, of pause ?w1] obtain w2 tr2 where
    raw: "runLoop ?r 0 (replicate ?r 0) E mode pause target command args ?w1
           = Some (Return (take 0 (replicate ?r 0)
                @ map (\<lambda>j. real_of_int (elapsed E (reads ?w1) j)) [0..<?r]
                @ drop (0 + ?r) (replicate ?r 0)) w2)"
      "reads w2 = reads ?w1 + 2 * ?r" "spawns w2 = spawns ?w1 + ?r"
      "filter is_report (trace w2) = filter is_report (trace ?w1)
          @ concat (map (\<lambda>j. [Print Green ''  - %s'' [D (elapsed E (reads ?w1) j)], Sleep pause]) [0..<?r])"
      "trace w2 = trace ?w1 @ tr2"
    by blast
  have w2: "runLoop ?r 0 (replicate ?r 0) E mode pause target command args ?w1
           = Some (Return ?R w2)"
      "reads w2 = reads w + 2 * ?d + 2 * ?r" "spawns w2 = spawns w + ?d + ?r"
      "filter is_report (trace w2) = filter is_report (trace w1) @ [Print Green ''Runs'' []]
          @ concat ?G"
      "trace w2 = trace w1 @ [Print Green ''Runs'' []] @ tr2"
    using raw unfolding m1 m2 by (simp_all add: w1' w1 is_report_def)
  have rep: "filter is_report (summary S xs) = summary S xs" for xs
    by (simp add: summary_def is_report_def)
  from benchmark_after_loops [OF w1(1) w2(1) runs, of S]
  show ?thesis
    using w1 w2 by (auto simp: rep)
qed

theorem benchmark_runs_witness:
  "\<exists>w' tr. benchmark (late_server 1) failing_stats ''tcp-connect'' 1 2 5 ''localhost:8080'' ''srv'' [] world0
        = Some (Return () w')
     \<and> filter is_report (trace w') =
         [Print Cyan ''Dry runs'' [], Print Cyan ''  - %s'' [D 1000], Sleep 5,
          Print Green ''Runs'' [], Print Green ''  - %s'' [D 1000], Sleep 5,
          Print Green ''  - %s'' [D 1000], Sleep 5] @ summary failing_stats [1000, 1000]
     \<and> trace w' = tr @ summary failing_stats [1000, 1000]
     \<and> spawns w' = 3"
proof -
  have m: "''tcp-connect'' = ''tcp-connect'' \<or> ''tcp-connect'' = ''http-get''" by simp
  have s: "\<forall>n. start_error (late_server 1) n ''srv'' [] = None"
    by (simp add: late_server_def)
  have r: "\<forall>n. \<exists>k. ready (late_server 1) ''tcp-connect'' (n + k) ''localhost:8080''"
    by (auto simp: ready_def late_server_def intro: exI [of _ 1])
  have e: "elapsed (late_server 1) 0 j = 1000" for j
    by (simp add: elapsed_def late_server_def time_Sub_def)
  have e': "elapsed (late_server (Suc 0)) 0 j = 1000" for j
    by (simp add: elapsed_def late_server_def time_Sub_def)
  have u1: "[0..<nat 1] = [0]" by simp
  have u2: "[nat 1..<nat 1 + nat 2] = [1, 2]" by (simp add: upt_rec)
  have z: "(0::int) \<le> 1" "(0::int) \<le> 2" by simp_all
  from benchmark_runs [OF m s r z, of failing_stats 5 world0]
  obtain w' tr where
    "benchmark (late_server 1) failing_stats ''tcp-connect'' 1 2 5 ''localhost:8080'' ''srv'' [] world0
        = Some (Return () w')"
    "filter is_report (trace w') = filter is_report (trace world0)
          @ [Print Cyan ''Dry runs'' []]
          @ concat (map (\<lambda>j. [Print Cyan ''  - %s'' [D (elapsed (late_server 1) (reads world0) j)], Sleep 5])
              [0..<nat 1])
          @ [Print Green ''Runs'' []]
          @ concat (map (\<lambda>j. [Print Green ''  - %s'' [D (elapsed (late_server 1) (reads world0) j)], Sleep 5])
              [nat 1..<nat 1 + nat 2])
          @ summary failing_stats (map (\<lambda>j. real_of_int (elapsed (late_server 1) (reads world0) j))
              [nat 1..<nat 1 + nat 2])"
    "trace w' = trace world0 @ tr @ summary failing_stats (map (\<lambda>j. real_of_int (elapsed (late_server 1) (reads world0) j))
              [nat 1..<nat 1 + nat 2])"
    "spawns w' = spawns world0 + nat 1 + nat 2"
    by blast
  then have
    "benchmark (late_server 1) failing_stats ''tcp-connect'' 1 2 5 ''localhost:8080'' ''srv'' [] world0
        = Some (Return () w')
     \<and> filter is_report (trace w') =
         [Print Cyan ''Dry runs'' [], Print Cyan ''  - %s'' [D 1000], Sleep 5,
          Print Green ''Runs'' [], Print Green ''  - %s'' [D 1000], Sleep 5,
          Print Green ''  - %s'' [D 1000], Sleep 5] @ summary failing_stats [1000, 1000]
     \<and> trace w' = tr @ summary failing_stats [1000, 1000]
     \<and> spawns w' = 3"
    unfolding u1 u2 by (simp add: world0_def e e')
  then show ?thesis by blast
qed

text \<open>
  C6 (amended). The statistics are computed once, after the loop of the runs has
  completed, over the list that loop returns, which has runs entries. Nothing guards the
  empty list: with runs = 0 (and no dry run to wait for) benchmark returns after printing
  both headings and every statistic of the empty list, whatever errors the package reports.
\<close>

theorem summary_over_RunSet:
  "(benchmark E S mode dryRuns runs pause target command args w = Some (Return u w') \<longrightarrow>
      0 \<le> runs \<and> (\<exists>w1 w2 durations.
        runLoop (nat runs) 0 (replicate (nat runs) 0) E mode pause target command args w1
          = Some (Return durations w2)
        \<and> length durations = nat runs
        \<and> w' = w2\<lparr>trace := trace w2 @ summary S durations\<rparr>))
   \<and> (dryRuns \<le> 0 \<longrightarrow>
        benchmark E S mode dryRuns 0 pause target command args w
          = Some (Return () (w\<lparr>trace := trace w @ Print Cyan ''Dry runs'' []
                                   # Print Green ''Runs'' [] # summary S []\<rparr>)))"
  using benchmark_returns_cases [of E S mode dryRuns runs pause target command args w u w']
    benchmark_no_runs [of dryRuns E S mode pause target command args w]
  by blast

theorem summary_over_RunSet_witness:
  "benchmark (late_server 0) failing_stats ''http-get'' 0 0 10 ''http://localhost:8080/'' ''srv'' [] world0
     = Some (Return () (world0\<lparr>trace := Print Cyan ''Dry runs'' [] # Print Green ''Runs'' []
                                    # summary failing_stats []\<rparr>))
   \<and> (\<exists>w1 w2 durations.
        runLoop 0 0 [] (late_server 0) ''http-get'' 10 ''http://localhost:8080/'' ''srv'' [] w1
          = Some (Return durations w2)
        \<and> length durations = 0
        \<and> world0\<lparr>trace := Print Cyan ''Dry runs'' [] # Print Green ''Runs'' []
                                    # summary failing_stats []\<rparr>
            = w2\<lparr>trace := trace w2 @ summary failing_stats durations\<rparr>)"
proof -
  let ?w' = "world0\<lparr>trace := Print Cyan ''Dry runs'' [] # Print Green ''Runs'' []
                                    # summary failing_stats []\<rparr>"
  note t = summary_over_RunSet [of "late_server 0" failing_stats "''http-get''" 0 0 10
      "''http://localhost:8080/''" "''srv''" "[]" world0 "()" ?w']
  from t have b: "benchmark (late_server 0) failing_stats ''http-get'' 0 0 10
      ''http://localhost:8080/'' ''srv'' [] world0 = Some (Return () ?w')"
    by (simp add: world0_def)
  from t b have "\<exists>w1 w2 durations.
        runLoop (nat 0) 0 (replicate (nat 0) 0) (late_server 0) ''http-get'' 10
          ''http://localhost:8080/'' ''srv'' [] w1 = Some (Return durations w2)
        \<and> length durations = nat 0
        \<and> ?w' = w2\<lparr>trace := trace w2 @ summary failing_stats durations\<rparr>"
    by blast
  with b show ?thesis by simp
qed

theorem empty_RunSet_counterexample:
  "benchmark (late_server 0) failing_stats ''http-get'' 0 0 10 ''http://localhost:8080/'' ''srv'' [] world0
     = Some (Return () (world0\<lparr>trace :=
         [Print Cyan ''Dry runs'' [], Print Green ''Runs'' [],
          Print Yellow ''Min: %s'' [D 0], Print Yellow ''Max: %s'' [D 0],
          Print Yellow ''Median: %s (std dev %s)'' [D 0, D 0],
          Print Yellow ''Ouliers:'' [],
          Print Yellow ''  - mild: %s'' [Ds []], Print Yellow ''  - extreme: %s'' [Ds []],
          Print Yellow ''Percentiles:'' [],
          Print Yellow ''  - %f%%: %s'' [F 75, D 0], Print Yellow ''  - %f%%: %s'' [F 80, D 0],
          Print Yellow ''  - %f%%: %s'' [F 85, D 0], Print Yellow ''  - %f%%: %s'' [F 90, D 0],
          Print Yellow ''  - %f%%: %s'' [F 95, D 0], Print Yellow ''  - %f%%: %s'' [F 97.5, D 0],
          Print Yellow ''  - %f%%: %s'' [F 98, D 0], Print Yellow ''  - %f%%: %s'' [F 99, D 0],
          Print Yellow ''  - %f%%: %s'' [F 99.9, D 0], Print Yellow ''  - %f%%: %s'' [F 100, D 0]]\<rparr>))"
  by (simp add: benchmark_no_runs world0_def summary_def failing_stats_def float64ToDuration_def)

text \<open>
  C9 (amended). An empty executable is fatal before anything else happens. The mode is
  looked at by measure only: an unknown mode is fatal at the first measurement, after the
  heading of its loop and before any clock reading, child or connection attempt, when there
  is a measurement to run (dryRuns or runs is positive).
\<close>

theorem configuration_errors:
  "(executable = [] \<longrightarrow>
      main_action E S mode dryRuns runs pauseDuration target executable args w
        = Some (Abort (Fatal ''An executable must be specified'') w))
   \<and> (executable \<noteq> [] \<and> mode \<noteq> ''tcp-connect'' \<and> mode \<noteq> ''http-get''
        \<and> (0 < dryRuns \<or> 0 < runs) \<longrightarrow>
      (\<exists>w'. main_action E S mode dryRuns runs pauseDuration target executable args w
          = Some (Abort (Fatal (''Unknow mode: '' @ mode)) w')
        \<and> reads w' = reads w \<and> spawns w' = spawns w \<and> attempts w' = attempts w
        \<and> trace w' = trace w @ (if 0 < dryRuns then [Print Cyan ''Dry runs'' []]
                                  else [Print Cyan ''Dry runs'' [], Print Green ''Runs'' []])))"
  by (simp add: main_action_def benchmark_unknown_mode)

theorem configuration_errors_witness:
  "main_action (late_server 0) failing_stats ''http-get'' 2 20 10 ''http://localhost:8080/'' [] [] world0
     = Some (Abort (Fatal ''An executable must be specified'') world0)
   \<and> (\<exists>w'. main_action (late_server 0) failing_stats ''ftp'' 2 20 10 ''http://localhost:8080/'' ''srv'' [] world0
          = Some (Abort (Fatal ''Unknow mode: ftp'') w')
        \<and> reads w' = 0 \<and> spawns w' = 0 \<and> attempts w' = 0
        \<and> trace w' = [Print Cyan ''Dry runs'' []])"
  using configuration_errors [of "[]" "late_server 0" failing_stats "''http-get''" 2 20 10
      "''http://localhost:8080/''" "[]" world0]
    configuration_errors [of "''srv''" "late_server 0" failing_stats "''ftp''" 2 20 10
      "''http://localhost:8080/''" "[]" world0]
  by (simp add: world0_def)

theorem unknown_mode_counterexample:
  "main_action (late_server 0) failing_stats ''ftp'' 0 0 10 ''http://localhost:8080/'' ''srv'' [] world0
     = Some (Return () (world0\<lparr>trace := Print Cyan ''Dry runs'' [] # Print Green ''Runs'' []
                                    # summary failing_stats []\<rparr>))"
  by (simp add: main_action_def benchmark_no_runs world0_def)


text \<open>
  C7. With the statistics of the specification, on every non-empty RunSet the minimum is
  at most the median, and the median at most the maximum.
\<close>

theorem min_median_max:
  assumes "xs \<noteq> []"
  shows "fst (spec_Min xs) \<le> fst (spec_Median xs) \<and> fst (spec_Median xs) \<le> fst (spec_Max xs)"
proof -
  let ?n = "length xs"
  from assms have n: "0 < ?n" by simp
  show ?thesis
  proof (cases "even ?n")
    case True
    from n have a: "?n div 2 - 1 < ?n" and b: "?n div 2 < ?n" by arith+
    from sorted_nth_bounds [OF a] sorted_nth_bounds [OF b] True assms show ?thesis
      by (simp add: spec_Min_def spec_Median_def spec_Max_def Let_def)
  next
    case False
    from n have b: "?n div 2 < ?n" by simp
    from sorted_nth_bounds [OF b] False assms show ?thesis
      by (simp add: spec_Min_def spec_Median_def spec_Max_def Let_def)
  qed
qed

theorem min_median_max_witness:
  "fst (spec_Min [30, 10, 20, 40]) \<le> fst (spec_Median [30, 10, 20, 40])
   \<and> fst (spec_Median [30, 10, 20, 40]) \<le> fst (spec_Max [30, 10, 20, 40])
   \<and> spec_Median [30, 10, 20, 40] = (25, None)"
proof -
  have "[30, 10, 20, 40] \<noteq> ([] :: real list)" by simp
  from min_median_max [OF this] show ?thesis
    by (simp add: spec_Median_def Let_def)
qed

text \<open>
  C8. With the statistics of the specification, on every non-empty RunSet whose
  measurements all equal v: the standard deviation is 0, the minimum, the maximum and the
  median are v, each of the ten percentiles benchmark asks for is v, and there is no mild
  and no extreme outlier; none of the calls reports an error.
\<close>

theorem identical_measurements:
  assumes "xs \<noteq> []" and "\<forall>x\<in>set xs. x = v"
  shows "spec_StandardDeviation xs = (0, None)
     \<and> spec_Min xs = (v, None) \<and> spec_Max xs = (v, None) \<and> spec_Median xs = (v, None)
     \<and> length percentiles = 10
     \<and> (\<forall>p\<in>set percentiles. stats_Percentile spec_stats xs p = (v, None))
     \<and> spec_QuartileOutliers xs = (\<lparr>Mild = [], Extreme = []\<rparr>, None)"
proof -
  from assms(2) have xs: "xs = replicate (length xs) v"
    by (simp add: replicate_length_same)
  from assms(1) have n: "0 < length xs" by simp
  from stats_replicate [OF n, of v] show ?thesis
    unfolding xs [symmetric] by (simp add: spec_stats_def percentiles_def)
qed

theorem identical_measurements_witness:
  "spec_StandardDeviation [100000000, 100000000, 100000000, 100000000, 100000000] = (0, None)
   \<and> spec_Min [100000000, 100000000, 100000000, 100000000, 100000000] = (100000000, None)
   \<and> spec_Max [100000000, 100000000, 100000000, 100000000, 100000000] = (100000000, None)
   \<and> spec_Median [100000000, 100000000, 100000000, 100000000, 100000000] = (100000000, None)
   \<and> map (stats_Percentile spec_stats [100000000, 100000000, 100000000, 100000000, 100000000])
        [75, 80, 85, 90, 95, 97.5, 98, 99, 99.9, 100]
      = [(100000000, None), (100000000, None), (100000000, None), (100000000, None),
         (100000000, None), (100000000, None), (100000000, None), (100000000, None),
         (100000000, None), (100000000, None)]
   \<and> spec_QuartileOutliers [100000000, 100000000, 100000000, 100000000, 100000000]
        = (\<lparr>Mild = [], Extreme = []\<rparr>, None)"
proof -
  let ?xs = "[100000000, 100000000, 100000000, 100000000, 100000000 :: real]"
  have a: "?xs \<noteq> []" by simp
  have b: "\<forall>x\<in>set ?xs. x = 100000000" by simp
  from identical_measurements [OF a b] show ?thesis
    by (simp add: percentiles_def)
qed

end
